theory Spec2Isabelle
  imports Complex_Main
begin

section \<open>Data model\<close>

text \<open>
  The classifier of \<^verbatim>\<open>src/classifier.js\<close> decides between two remediation paths. The two
  string literals \<^verbatim>\<open>'ai_code_remediation'\<close> (the spec's technical remediation) and
  \<^verbatim>\<open>'vibe_coded_troubleshooting'\<close> (the spec's operational workflow) are the only keys of
  \<^verbatim>\<open>CLASSIFICATION_RULES\<close> and of \<^verbatim>\<open>baseActions\<close>, and the only values \<^verbatim>\<open>finalDecision\<close>
  is ever assigned, so they form a two-valued datatype.
\<close>

datatype category = ai_code_remediation | vibe_coded_troubleshooting


text \<open>
  A ticket as the core reads it: three string fields. The optional fields of the schema
  are never read by the functions modelled here.
\<close>

record ticket =
  channel :: string
  severity :: string
  summary :: string

text \<open>The schema \<^verbatim>\<open>ticketSchema\<close> of \<^verbatim>\<open>src/validation.js\<close>, on the three fields.\<close>

definition validTicket :: "ticket \<Rightarrow> bool" where
  "validTicket t =
     (channel t \<in> set [''mobile_app'', ''web_app'', ''api'', ''phone'', ''email'', ''chat'',
                        ''branch'', ''integration'']
      \<and> severity t \<in> set [''low'', ''medium'', ''high'', ''critical'']
      \<and> 10 \<le> length (summary t) \<and> length (summary t) \<le> 1000)"

record rules =
  "keywords" :: "string list"
  channels :: "string list"
  severities :: "string list"

fun CLASSIFICATION_RULES :: "category \<Rightarrow> rules" where
  "CLASSIFICATION_RULES ai_code_remediation =
     \<lparr> keywords =
         [''api'', ''timeout'', ''error'', ''bug'', ''crash'', ''exception'', ''database'',
          ''integration'', ''authentication'', ''authorization'', ''performance'',
          ''memory leak'', ''sql'', ''connection'', ''server error'', ''code'',
          ''deployment'', ''build'', ''compilation''],
       channels = [''api'', ''mobile_app'', ''web_app'', ''integration''],
       severities = [''high'', ''critical''] \<rparr>"
| "CLASSIFICATION_RULES vibe_coded_troubleshooting =
     \<lparr> keywords =
         [''account'', ''balance'', ''transaction'', ''transfer'', ''payment'',
          ''statement'', ''card'', ''pin'', ''password'', ''profile'', ''settings'',
          ''notification'', ''email'', ''sms'', ''verification'', ''kyc'',
          ''onboarding'', ''support'', ''help'', ''guidance''],
       channels = [''phone'', ''email'', ''chat'', ''branch''],
       severities = [''low'', ''medium''] \<rparr>"

section \<open>Strings\<close>

text \<open>
  Strings are lists of characters. \<^verbatim>\<open>String.prototype.toLowerCase\<close> is modelled on ASCII
  letters, which is all the keyword tables contain; \<^verbatim>\<open>String.prototype.includes\<close> is the
  substring test, true for the empty needle.
\<close>

definition toLowerCase_char :: "char \<Rightarrow> char" where
  "toLowerCase_char c =
     (let n = (of_char c :: nat) in if 65 \<le> n \<and> n \<le> 90 then char_of (n + 32) else c)"

definition toLowerCase :: "string \<Rightarrow> string" where
  "toLowerCase s = map toLowerCase_char s"

fun startsWith :: "string \<Rightarrow> string \<Rightarrow> bool" where
  "startsWith s [] = True"
| "startsWith [] (k # ks) = False"
| "startsWith (c # cs) (k # ks) = (c = k \<and> startsWith cs ks)"

fun includes_str :: "string \<Rightarrow> string \<Rightarrow> bool" where
  "includes_str [] k = (k = [])"
| "includes_str (c # cs) k = (startsWith (c # cs) k \<or> includes_str cs k)"

section \<open>Rule Scorer\<close>

text \<open>
  \<^verbatim>\<open>calculateRuleBasedScore\<close>, statement by statement. JavaScript numbers are modelled as
  exact reals here: the keyword tables are non-empty constants, so no division by zero and
  no NaN can arise in this function. Rounding of IEEE doubles is not modelled.
\<close>

definition calculateRuleBasedScore :: "ticket \<Rightarrow> category \<Rightarrow> real" where
  "calculateRuleBasedScore ticket classification =
     (let rules = CLASSIFICATION_RULES classification;
          score = 0;
          maxScore = 0;
          summaryLower = toLowerCase (summary ticket);
          keywordMatches =
            length (filter (\<lambda>keyword. includes_str summaryLower keyword) (keywords rules));
          score = score + (real keywordMatches / real (length (keywords rules))) * 0.4;
          maxScore = maxScore + 0.4;
          score = (if channel ticket \<in> set (channels rules) then score + 0.3 else score);
          maxScore = maxScore + 0.3;
          score = (if severity ticket \<in> set (severities rules) then score + 0.3 else score);
          maxScore = maxScore + 0.3
      in if maxScore > 0 then score / maxScore else 0)"

section \<open>Action Planner\<close>

fun baseActions :: "category \<Rightarrow> string list" where
  "baseActions ai_code_remediation =
     [''Analyze error logs and stack traces'',
      ''Identify root cause in codebase'',
      ''Generate code patch or fix'',
      ''Run automated tests on fix'',
      ''Deploy to staging environment'',
      ''Monitor for regression issues'']"
| "baseActions vibe_coded_troubleshooting =
     [''Review customer account details'',
      ''Execute diagnostic workflow'',
      ''Apply standard troubleshooting steps'',
      ''Update customer communication'',
      ''Document resolution steps'',
      ''Schedule follow-up if needed'']"

text \<open>
  \<^verbatim>\<open>unshift\<close> is cons, \<^verbatim>\<open>push\<close> appends, \<^verbatim>\<open>splice(3, 0, x)\<close> inserts before index 3 and
  \<^verbatim>\<open>slice(0, 6)\<close> keeps the first six entries.
\<close>

definition generateActionChecklist :: "category \<Rightarrow> ticket \<Rightarrow> string list" where
  "generateActionChecklist decision ticket =
     (let actions = baseActions decision;
          actions =
            (if severity ticket = ''critical''
             then (''Escalate to senior team immediately'' # actions) @ [''Prepare incident report'']
             else if severity ticket = ''high''
             then actions @ [''Monitor resolution progress closely'']
             else actions);
          actions =
            (if channel ticket = ''mobile_app'' \<and> decision = ai_code_remediation
             then take 3 actions @ [''Test fix on multiple mobile platforms''] @ drop 3 actions
             else actions)
      in take 6 actions)"

section \<open>Numbers that may be NaN\<close>

text \<open>
  The confidence of an external assessment comes out of \<^verbatim>\<open>JSON.parse\<close> and is coerced by
  \<^verbatim>\<open>Math.min\<close>, so unlike a rule score it can be \<^verbatim>\<open>NaN\<close>. Such numbers are a real or
  \<^verbatim>\<open>NaN\<close>; the arithmetic operators and \<^verbatim>\<open>Math.max\<close>, \<^verbatim>\<open>Math.min\<close>, \<^verbatim>\<open>Math.round\<close> return
  \<^verbatim>\<open>NaN\<close> as soon as an operand is \<^verbatim>\<open>NaN\<close>, and \<^verbatim>\<open>></\<close> is false then.
  \<^verbatim>\<open>Math.round\<close> rounds to the nearest integer, halves upwards.
\<close>

datatype jsnum = NaN | Num real

fun js_add :: "jsnum \<Rightarrow> jsnum \<Rightarrow> jsnum" where
  "js_add (Num x) (Num y) = Num (x + y)"
| "js_add _ _ = NaN"

fun js_sub :: "jsnum \<Rightarrow> jsnum \<Rightarrow> jsnum" where
  "js_sub (Num x) (Num y) = Num (x - y)"
| "js_sub _ _ = NaN"

fun js_mul :: "jsnum \<Rightarrow> jsnum \<Rightarrow> jsnum" where
  "js_mul (Num x) (Num y) = Num (x * y)"
| "js_mul _ _ = NaN"

text \<open>The only divisor in the classifier is the literal 100.\<close>

fun js_div :: "jsnum \<Rightarrow> jsnum \<Rightarrow> jsnum" where
  "js_div (Num x) (Num y) = (if y = 0 then NaN else Num (x / y))"
| "js_div _ _ = NaN"

fun js_gt :: "jsnum \<Rightarrow> jsnum \<Rightarrow> bool" where
  "js_gt (Num x) (Num y) = (x > y)"
| "js_gt _ _ = False"

fun Math_max :: "jsnum \<Rightarrow> jsnum \<Rightarrow> jsnum" where
  "Math_max (Num x) (Num y) = Num (max x y)"
| "Math_max _ _ = NaN"

fun Math_min :: "jsnum \<Rightarrow> jsnum \<Rightarrow> jsnum" where
  "Math_min (Num x) (Num y) = Num (min x y)"
| "Math_min _ _ = NaN"

fun Math_round :: "jsnum \<Rightarrow> jsnum" where
  "Math_round (Num x) = Num (of_int \<lfloor>x + 1 / 2\<rfloor>)"
| "Math_round NaN = NaN"

section \<open>External Assessment Adapter\<close>

text \<open>
  What \<^verbatim>\<open>analyzeTicketWithAI\<close> of \<^verbatim>\<open>src/ai-helper.js\<close> reads from its surroundings: the
  environment variable \<^verbatim>\<open>OPENAI_API_KEY\<close> (\<open>None\<close> when unset) and the outcome of the call
  to the completion service followed by \<^verbatim>\<open>JSON.parse\<close>.

  A parsed reply is seen through the three fields the code reads. A text field is absent
  (\<open>None\<close>: undefined, null) or a string; the empty string is falsy. The confidence field is
  a number (falsy when 0), some other falsy value (undefined, null, false, the empty
  string), or some other truthy value (a non-empty string, true, an array, an object)
  together with the number \<^verbatim>\<open>Math.min\<close> coerces it to, which is \<^verbatim>\<open>NaN\<close> for a string
  such as \<^verbatim>\<open>"high"\<close>.
\<close>

datatype confidence_field = Falsy_other | JNumber real | Truthy_other jsnum

fun truthy_confidence :: "confidence_field \<Rightarrow> bool" where
  "truthy_confidence Falsy_other = False"
| "truthy_confidence (JNumber r) = (r \<noteq> 0)"
| "truthy_confidence (Truthy_other n) = True"

fun ToNumber :: "confidence_field \<Rightarrow> jsnum" where
  "ToNumber Falsy_other = Num 0"
| "ToNumber (JNumber r) = Num r"
| "ToNumber (Truthy_other n) = n"

fun truthy_text :: "string option \<Rightarrow> bool" where
  "truthy_text None = False"
| "truthy_text (Some s) = (s \<noteq> [])"

record payload =
  p_recommendation :: "string option"
  p_confidence :: confidence_field
  p_reasoning :: "string option"

datatype service_reply =
    Rejected
  | NoContent
  | Unparsable
  | ParsedNull
  | Parsed payload

text \<open>
  \<open>Rejected\<close>: the promise of \<^verbatim>\<open>openai.chat.completions.create\<close> rejects (network failure,
  the 10 second timeout, an API error). \<open>NoContent\<close>: the completion has no first choice or
  no content, so \<^verbatim>\<open>response\<close> is falsy. \<open>Unparsable\<close>: \<^verbatim>\<open>JSON.parse\<close> throws (not JSON, or
  JSON cut short). \<open>ParsedNull\<close>: the content is the JSON text \<^verbatim>\<open>null\<close>, whose property read
  throws. \<open>Parsed\<close>: any other JSON value; one that is not an object has all three fields
  absent.
\<close>

record env =
  OPENAI_API_KEY :: "string option"
  reply :: service_reply

record analysis =
  a_recommendation :: string
  a_confidence :: jsnum
  a_reasoning :: string

datatype error = RequestError | EmptyResponse | SyntaxError | TypeError | InvalidStructure

text \<open>The body of the \<^verbatim>\<open>try\<close> block: every \<^verbatim>\<open>throw\<close> is an \<open>Inl\<close>.\<close>

fun analysis_attempt :: "service_reply \<Rightarrow> error + analysis" where
  "analysis_attempt Rejected = Inl RequestError"
| "analysis_attempt NoContent = Inl EmptyResponse"
| "analysis_attempt Unparsable = Inl SyntaxError"
| "analysis_attempt ParsedNull = Inl TypeError"
| "analysis_attempt (Parsed p) =
     (if \<not> truthy_text (p_recommendation p) \<or> \<not> truthy_confidence (p_confidence p)
         \<or> \<not> truthy_text (p_reasoning p)
      then Inl InvalidStructure
      else Inr \<lparr> a_recommendation = the (p_recommendation p),
                 a_confidence = Math_max (Num 0) (Math_min (Num 1) (ToNumber (p_confidence p))),
                 a_reasoning = the (p_reasoning p) \<rparr>)"

text \<open>
  The whole function: the early return without a usable key, then the \<^verbatim>\<open>try\<close> block whose
  \<^verbatim>\<open>catch\<close> returns null for every error.
\<close>

definition analyzeTicketWithAI :: "env \<Rightarrow> ticket \<Rightarrow> analysis option" where
  "analyzeTicketWithAI e ticket =
     (if OPENAI_API_KEY e = None \<or> OPENAI_API_KEY e = Some [] \<or> OPENAI_API_KEY e = Some ''demo-key''
      then None
      else case analysis_attempt (reply e) of Inl err \<Rightarrow> None | Inr a \<Rightarrow> Some a)"

section \<open>Decision Combiner\<close>

record rule_scores =
  ai_score :: real
  vibe_score :: real

record metadata =
  model_version :: string
  rule_scores :: rule_scores
  ai_analysis_used :: bool

record classification_result =
  decision :: category
  reasoning :: string
  confidence :: jsnum
  next_actions :: "string list"
  metadata :: metadata

text \<open>The three constants of the branch taken when an assessment is present.\<close>

definition aiDecisionScore :: "analysis \<Rightarrow> jsnum" where
  "aiDecisionScore a =
     (if a_recommendation a = ''ai_code_remediation'' then a_confidence a
      else js_sub (Num 1) (a_confidence a))"

definition combinedAiScore :: "analysis \<Rightarrow> real \<Rightarrow> jsnum" where
  "combinedAiScore a aiScore =
     js_add (js_mul (aiDecisionScore a) (Num 0.6)) (js_mul (Num aiScore) (Num 0.4))"

definition combinedVibeScore :: "analysis \<Rightarrow> real \<Rightarrow> jsnum" where
  "combinedVibeScore a vibeScore =
     js_add (js_mul (js_sub (Num 1) (aiDecisionScore a)) (Num 0.6)) (js_mul (Num vibeScore) (Num 0.4))"

text \<open>
  The \<^verbatim>\<open>if (aiAnalysis) ... else ...\<close> statement of \<^verbatim>\<open>classifyTicket\<close>, which assigns
  \<^verbatim>\<open>finalDecision\<close>, \<^verbatim>\<open>confidence\<close> and \<^verbatim>\<open>reasoning\<close>; the confidence here is the one before
  the floor and the rounding.
\<close>

definition fusion :: "real \<Rightarrow> real \<Rightarrow> analysis option \<Rightarrow> category \<times> jsnum \<times> string" where
  "fusion aiScore vibeScore aiAnalysis =
     (case aiAnalysis of
        Some a \<Rightarrow>
          if js_gt (combinedAiScore a aiScore) (combinedVibeScore a vibeScore)
          then (ai_code_remediation, combinedAiScore a aiScore,
                ''Technical issue detected: '' @ a_reasoning a)
          else (vibe_coded_troubleshooting, combinedVibeScore a vibeScore,
                ''Operational issue requiring workflow: '' @ a_reasoning a)
      | None \<Rightarrow>
          if aiScore > vibeScore
          then (ai_code_remediation, Num aiScore,
                ''Technical indicators suggest code-level intervention needed'')
          else (vibe_coded_troubleshooting, Num vibeScore,
                ''Operational indicators suggest workflow-based resolution''))"

text \<open>
  \<^verbatim>\<open>classifyTicket\<close>. When the adapter returns null, reading \<^verbatim>\<open>aiAnalysis.recommendation\<close>
  for the debug log throws inside the inner \<^verbatim>\<open>try\<close>; the inner \<^verbatim>\<open>catch\<close> only logs, and
  \<^verbatim>\<open>aiAnalysis\<close> stays null. The scorer and the planner have no failing path on string
  fields and the two categories, so the outer \<^verbatim>\<open>catch\<close> is never entered and the function
  returns a result on every input of this model.
\<close>

definition classifyTicket :: "env \<Rightarrow> ticket \<Rightarrow> classification_result" where
  "classifyTicket e ticket =
     (let aiScore = calculateRuleBasedScore ticket ai_code_remediation;
          vibeScore = calculateRuleBasedScore ticket vibe_coded_troubleshooting;
          aiAnalysis = analyzeTicketWithAI e ticket;
          (finalDecision, confidence, reasoning) = fusion aiScore vibeScore aiAnalysis;
          confidence = Math_max confidence (Num 0.5)
      in \<lparr> decision = finalDecision,
           reasoning = reasoning,
           confidence = js_div (Math_round (js_mul confidence (Num 100))) (Num 100),
           next_actions = generateActionChecklist finalDecision ticket,
           metadata = \<lparr> model_version = ''1.0.0'',
                        rule_scores = \<lparr> ai_score = aiScore, vibe_score = vibeScore \<rparr>,
                        ai_analysis_used = (aiAnalysis \<noteq> None) \<rparr> \<rparr>)"

text \<open>
  The schema \<^verbatim>\<open>responseSchema\<close> of \<^verbatim>\<open>src/validation.js\<close> on the fields of a result: the
  decision is one of the two categories by its type.
\<close>

definition validateResponse :: "classification_result \<Rightarrow> bool" where
  "validateResponse r =
     (10 \<le> length (reasoning r)
      \<and> (case confidence r of NaN \<Rightarrow> False | Num c \<Rightarrow> 0 \<le> c \<and> c \<le> 1)
      \<and> list_all (\<lambda>a. 5 \<le> length a) (next_actions r)
      \<and> 3 \<le> length (next_actions r) \<and> length (next_actions r) \<le> 10
      \<and> model_version (metadata r) \<noteq> [])"

section \<open>The specification's formulas\<close>




text \<open>Rounding to two decimal places, \<^verbatim>\<open>Math.round(x * 100) / 100\<close>.\<close>

definition round2 :: "jsnum \<Rightarrow> jsnum" where
  "round2 x = js_div (Math_round (js_mul x (Num 100))) (Num 100)"

section \<open>Example inputs\<close>

text \<open>The three end-to-end scenarios of the test suite and a ticket with equal rule scores.\<close>

definition technical_ticket :: ticket where
  "technical_ticket =
     \<lparr> channel = ''api'', severity = ''high'',
       summary = ''API timeout errors causing database connection failures'' \<rparr>"

definition operational_ticket :: ticket where
  "operational_ticket =
     \<lparr> channel = ''phone'', severity = ''medium'',
       summary = ''Customer needs help with account balance verification and password reset'' \<rparr>"

definition critical_ticket :: ticket where
  "critical_ticket =
     \<lparr> channel = ''api'', severity = ''critical'', summary = ''System down, database errors'' \<rparr>"

definition tie_ticket :: ticket where
  "tie_ticket =
     \<lparr> channel = ''api'', severity = ''low'', summary = ''General inquiry about services'' \<rparr>"

text \<open>No credential; the reply is never read.\<close>

definition no_key_env :: env where
  "no_key_env = \<lparr> OPENAI_API_KEY = None, reply = Rejected \<rparr>"



text \<open>An undecided assessment: confidence one half.\<close>

definition undecided_env :: env where
  "undecided_env =
     \<lparr> OPENAI_API_KEY = Some ''test-key'',
       reply = Parsed \<lparr> p_recommendation = Some ''vibe_coded_troubleshooting'',
                        p_confidence = JNumber 0.5,
                        p_reasoning = Some ''No clear indicators'' \<rparr> \<rparr>"

text \<open>A reply without the confidence field.\<close>

definition malformed_env :: env where
  "malformed_env =
     \<lparr> OPENAI_API_KEY = Some ''test-key'',
       reply = Parsed \<lparr> p_recommendation = Some ''ai_code_remediation'',
                        p_confidence = Falsy_other,
                        p_reasoning = Some ''API errors'' \<rparr> \<rparr>"

text \<open>
  A reply whose confidence is the string \<^verbatim>\<open>"high"\<close>: truthy, and coerced to \<^verbatim>\<open>NaN\<close> by
  \<^verbatim>\<open>Math.min\<close>.
\<close>

definition worded_confidence_env :: env where
  "worded_confidence_env =
     \<lparr> OPENAI_API_KEY = Some ''test-key'',
       reply = Parsed \<lparr> p_recommendation = Some ''ai_code_remediation'',
                        p_confidence = Truthy_other NaN,
                        p_reasoning = Some ''API errors'' \<rparr> \<rparr>"

section \<open>Static rule definitions\<close>

text \<open>
  Claim C9: no channel is in the preferred-channel set of both categories of
  \<^verbatim>\<open>CLASSIFICATION_RULES\<close>.
\<close>

theorem preferred_channels_disjoint:
  "set (channels (CLASSIFICATION_RULES ai_code_remediation))
     \<inter> set (channels (CLASSIFICATION_RULES vibe_coded_troubleshooting)) = {}"
  by simp

section \<open>Properties of the Action Planner\<close>

lemma generateActionChecklist_length:
  "length (generateActionChecklist d t) = 6"
  by (cases d) (simp_all add: generateActionChecklist_def Let_def)

lemma incident_report_dropped:
  "''Prepare incident report'' \<notin> set (generateActionChecklist d t)"
  by (cases d) (simp_all add: generateActionChecklist_def Let_def)

lemma monitor_progress_dropped:
  "''Monitor resolution progress closely'' \<notin> set (generateActionChecklist d t)"
  by (cases d) (simp_all add: generateActionChecklist_def Let_def)

text \<open>
  Claim C10: for every ticket and either decision category the planner returns exactly six
  actions, and neither of the two actions appended after the base list (the progress
  monitoring action for high severity, the incident report for critical severity) is among
  them: the final \<^verbatim>\<open>slice(0, 6)\<close> always cuts them off.
\<close>

theorem generateActionChecklist_six_without_appended:
  "length (generateActionChecklist d t) = 6
   \<and> ''Monitor resolution progress closely'' \<notin> set (generateActionChecklist d t)
   \<and> ''Prepare incident report'' \<notin> set (generateActionChecklist d t)"
  by (simp add: generateActionChecklist_length incident_report_dropped monitor_progress_dropped)

section \<open>Properties of the Rule Scorer\<close>



lemma calculateRuleBasedScore_sum:
  "calculateRuleBasedScore t c =
     real (length (filter (includes_str (toLowerCase (summary t))) (keywords (CLASSIFICATION_RULES c))))
       / real (length (keywords (CLASSIFICATION_RULES c))) * 0.4
     + (if channel t \<in> set (channels (CLASSIFICATION_RULES c)) then 0.3 else 0)
     + (if severity t \<in> set (severities (CLASSIFICATION_RULES c)) then 0.3 else 0)"
  by (simp add: calculateRuleBasedScore_def Let_def)

lemma keyword_fraction_bounds:
  "0 \<le> real (length (filter P ks)) / real (length ks)"
  "real (length (filter P ks)) / real (length ks) \<le> 1"
proof -
  show "0 \<le> real (length (filter P ks)) / real (length ks)" by simp
  have "length (filter P ks) \<le> length ks" by (rule length_filter_le)
  then show "real (length (filter P ks)) / real (length ks) \<le> 1"
    by (cases "length ks = 0") (simp_all add: divide_le_eq_1)
qed

lemma calculateRuleBasedScore_bounds:
  "0 \<le> calculateRuleBasedScore t c" "calculateRuleBasedScore t c \<le> 1"
  using keyword_fraction_bounds [of "includes_str (toLowerCase (summary t))" "keywords (CLASSIFICATION_RULES c)"]
  by (simp_all add: calculateRuleBasedScore_sum)




section \<open>Properties of the Decision Combiner\<close>



lemma js_gt_irrefl: "\<not> js_gt x x"
  by (cases x) simp_all



lemma classifyTicket_fields:
  "decision (classifyTicket e t) =
     fst (fusion (calculateRuleBasedScore t ai_code_remediation)
                 (calculateRuleBasedScore t vibe_coded_troubleshooting) (analyzeTicketWithAI e t))"
  "confidence (classifyTicket e t) =
     round2 (Math_max (fst (snd (fusion (calculateRuleBasedScore t ai_code_remediation)
                 (calculateRuleBasedScore t vibe_coded_troubleshooting) (analyzeTicketWithAI e t))))
               (Num 0.5))"
  "reasoning (classifyTicket e t) =
     snd (snd (fusion (calculateRuleBasedScore t ai_code_remediation)
                 (calculateRuleBasedScore t vibe_coded_troubleshooting) (analyzeTicketWithAI e t)))"
  "next_actions (classifyTicket e t) = generateActionChecklist (decision (classifyTicket e t)) t"
  "ai_analysis_used (metadata (classifyTicket e t)) = (analyzeTicketWithAI e t \<noteq> None)"
  "model_version (metadata (classifyTicket e t)) = ''1.0.0''"
  "ai_score (rule_scores (metadata (classifyTicket e t))) = calculateRuleBasedScore t ai_code_remediation"
  "vibe_score (rule_scores (metadata (classifyTicket e t))) = calculateRuleBasedScore t vibe_coded_troubleshooting"
  by (simp_all add: classifyTicket_def Let_def round2_def split: prod.splits)






text \<open>
  Claim C2: when the two scores that are compared (the combined scores when an assessment
  is present, the rule scores otherwise) are equal, the decision is the operational
  category, since the technical branch is taken on strictly greater only.
\<close>

theorem tie_goes_to_operational:
  assumes "case analyzeTicketWithAI e t of
             Some a \<Rightarrow> combinedAiScore a (calculateRuleBasedScore t ai_code_remediation)
                        = combinedVibeScore a (calculateRuleBasedScore t vibe_coded_troubleshooting)
           | None \<Rightarrow> calculateRuleBasedScore t ai_code_remediation
                      = calculateRuleBasedScore t vibe_coded_troubleshooting"
  shows "decision (classifyTicket e t) = vibe_coded_troubleshooting"
  using assms
  by (cases "analyzeTicketWithAI e t") (simp_all add: classifyTicket_fields fusion_def js_gt_irrefl)

theorem tie_goes_to_operational_witness:
  "calculateRuleBasedScore tie_ticket ai_code_remediation = 3 / 10
   \<and> calculateRuleBasedScore tie_ticket vibe_coded_troubleshooting = 3 / 10
   \<and> analyzeTicketWithAI no_key_env tie_ticket = None
   \<and> decision (classifyTicket no_key_env tie_ticket) = vibe_coded_troubleshooting
   \<and> (\<exists>a. analyzeTicketWithAI undecided_env tie_ticket = Some a
        \<and> combinedAiScore a (calculateRuleBasedScore tie_ticket ai_code_remediation) = Num (42 / 100)
        \<and> combinedVibeScore a (calculateRuleBasedScore tie_ticket vibe_coded_troubleshooting) = Num (42 / 100))
   \<and> decision (classifyTicket undecided_env tie_ticket) = vibe_coded_troubleshooting"
proof -
  have s1: "calculateRuleBasedScore tie_ticket ai_code_remediation = 3 / 10"
    by code_simp
  have s2: "calculateRuleBasedScore tie_ticket vibe_coded_troubleshooting = 3 / 10"
    by code_simp
  have n: "analyzeTicketWithAI no_key_env tie_ticket = None"
    by code_simp
  define a where "a = \<lparr> a_recommendation = ''vibe_coded_troubleshooting'', a_confidence = Num 0.5,
       a_reasoning = ''No clear indicators'' \<rparr>"
  have u: "analyzeTicketWithAI undecided_env tie_ticket = Some a"
    unfolding a_def by code_simp
  have c1: "combinedAiScore a (calculateRuleBasedScore tie_ticket ai_code_remediation) = Num (42 / 100)"
    unfolding a_def by code_simp
  have c2: "combinedVibeScore a (calculateRuleBasedScore tie_ticket vibe_coded_troubleshooting) = Num (42 / 100)"
    unfolding a_def by code_simp
  have d1: "decision (classifyTicket no_key_env tie_ticket) = vibe_coded_troubleshooting"
    using tie_goes_to_operational [where e = no_key_env and t = tie_ticket] by (simp add: n s1 s2)
  have d2: "decision (classifyTicket undecided_env tie_ticket) = vibe_coded_troubleshooting"
    using tie_goes_to_operational [where e = undecided_env and t = tie_ticket] by (simp add: u c1 c2)
  from s1 s2 n u c1 c2 d1 d2 show ?thesis by blast
qed

lemma fusion_None:
  "fusion aiScore vibeScore None =
     (if aiScore > vibeScore
      then (ai_code_remediation, Num aiScore,
            ''Technical indicators suggest code-level intervention needed'')
      else (vibe_coded_troubleshooting, Num vibeScore,
            ''Operational indicators suggest workflow-based resolution''))"
  by (simp add: fusion_def)

text \<open>
  Claim C3, as amended: with no assessment, the decision is the category with the strictly
  higher rule score (operational on a tie), the confidence before the floor is that rule
  score, the reasoning is one of two fixed sentences about technical or operational
  indicators, and the flag \<^verbatim>\<open>ai_analysis_used\<close> of the metadata is false. The sentences
  themselves do not say that the decision is rule-based only.
\<close>

theorem rule_only_fallback:
  assumes "analyzeTicketWithAI e t = None"
  shows "let ruleScore = calculateRuleBasedScore t;
             winner = (if ruleScore ai_code_remediation > ruleScore vibe_coded_troubleshooting
                       then ai_code_remediation else vibe_coded_troubleshooting);
             sentence = (case winner of
                           ai_code_remediation \<Rightarrow>
                             ''Technical indicators suggest code-level intervention needed''
                         | vibe_coded_troubleshooting \<Rightarrow>
                             ''Operational indicators suggest workflow-based resolution'')
         in fusion (ruleScore ai_code_remediation) (ruleScore vibe_coded_troubleshooting) None
              = (winner, Num (ruleScore winner), sentence)
          \<and> decision (classifyTicket e t) = winner
          \<and> confidence (classifyTicket e t) = round2 (Math_max (Num (ruleScore winner)) (Num 0.5))
          \<and> reasoning (classifyTicket e t) = sentence
          \<and> ai_analysis_used (metadata (classifyTicket e t)) = False"
  unfolding Let_def classifyTicket_fields assms fusion_None by simp

theorem rule_only_fallback_witness:
  "analyzeTicketWithAI no_key_env technical_ticket = None
   \<and> calculateRuleBasedScore technical_ticket ai_code_remediation = 67 / 95
   \<and> calculateRuleBasedScore technical_ticket vibe_coded_troubleshooting = 0
   \<and> decision (classifyTicket no_key_env technical_ticket) = ai_code_remediation
   \<and> confidence (classifyTicket no_key_env technical_ticket) = Num (71 / 100)
   \<and> reasoning (classifyTicket no_key_env technical_ticket)
       = ''Technical indicators suggest code-level intervention needed''
   \<and> ai_analysis_used (metadata (classifyTicket no_key_env technical_ticket)) = False"
proof -
  have n: "analyzeTicketWithAI no_key_env technical_ticket = None"
    by code_simp
  have s1: "calculateRuleBasedScore technical_ticket ai_code_remediation = 67 / 95"
    by code_simp
  have s2: "calculateRuleBasedScore technical_ticket vibe_coded_troubleshooting = 0"
    by code_simp
  have c: "round2 (Math_max (Num (67 / 95)) (Num 0.5)) = Num (71 / 100)"
    by code_simp
  from rule_only_fallback [OF n] s1 s2 c n show ?thesis
    by (simp add: Let_def)
qed

text \<open>
  Claim C3 as stated fails on its last part: for the operational scenario without a
  credential the reasoning is the fixed operational sentence, which mentions neither rules
  nor the absence of external input.
\<close>

theorem rule_only_reasoning_counterexample:
  "analyzeTicketWithAI no_key_env operational_ticket = None
   \<and> reasoning (classifyTicket no_key_env operational_ticket)
       = ''Operational indicators suggest workflow-based resolution''
   \<and> \<not> includes_str (toLowerCase (reasoning (classifyTicket no_key_env operational_ticket))) ''rule''
   \<and> \<not> includes_str (toLowerCase (reasoning (classifyTicket no_key_env operational_ticket))) ''only''
   \<and> \<not> includes_str (toLowerCase (reasoning (classifyTicket no_key_env operational_ticket))) ''external''"
  by code_simp

section \<open>Confidence bounds and adapter failures\<close>

lemma generateActionChecklist_min_length:
  "list_all (\<lambda>a. 5 \<le> length a) (generateActionChecklist d t)"
  by (cases d) (simp_all add: generateActionChecklist_def Let_def)

lemma round2_bounds:
  assumes "1 / 2 \<le> x" and "x \<le> 1"
  shows "\<exists>c. round2 (Num x) = Num c \<and> 1 / 2 \<le> c \<and> c \<le> 1"
proof -
  let ?n = "\<lfloor>x * 100 + 1 / 2\<rfloor>"
  have "(50::real) \<le> x * 100 + 1 / 2" using assms(1) by simp
  then have lo: "50 \<le> ?n" by (simp add: le_floor_iff)
  have "x * 100 + 1 / 2 < 101" using assms(2) by simp
  then have "?n < 101" by (simp add: floor_less_iff)
  then have hi: "?n \<le> 100" by simp
  have "round2 (Num x) = Num (of_int ?n / 100)"
    by (simp add: round2_def)
  moreover have "1 / 2 \<le> (of_int ?n :: real) / 100" using lo by simp
  moreover have "(of_int ?n :: real) / 100 \<le> 1" using hi by simp
  ultimately show ?thesis by blast
qed

lemma analysis_confidence_clamped:
  assumes "analyzeTicketWithAI e t = Some a"
  shows "a_confidence a = NaN \<or> (\<exists>x. a_confidence a = Num x \<and> 0 \<le> x \<and> x \<le> 1)"
proof -
  from assms obtain p where p: "reply e = Parsed p"
    and a: "a_confidence a = Math_max (Num 0) (Math_min (Num 1) (ToNumber (p_confidence p)))"
    by (cases "reply e") (auto simp: analyzeTicketWithAI_def split: if_splits)
  show ?thesis
    unfolding a by (cases "ToNumber (p_confidence p)") simp_all
qed

lemma combined_scores_bounds:
  assumes "a_confidence a = Num x" and "0 \<le> x" and "x \<le> 1"
    and "0 \<le> s" and "s \<le> 1"
  shows "\<exists>y. combinedAiScore a s = Num y \<and> 0 \<le> y \<and> y \<le> 1"
    and "\<exists>y. combinedVibeScore a s = Num y \<and> 0 \<le> y \<and> y \<le> 1"
proof -
  have "\<exists>d. aiDecisionScore a = Num d \<and> 0 \<le> d \<and> d \<le> 1"
    using assms(1-3) by (simp add: aiDecisionScore_def)
  then obtain d where d: "aiDecisionScore a = Num d" "0 \<le> d" "d \<le> 1"
    by blast
  have "0 \<le> d * 0.6 + s * 0.4" using d(2) assms(4) by (simp add: field_simps)
  moreover have "d * 0.6 + s * 0.4 \<le> 1" using d(3) assms(5) by (simp add: field_simps)
  ultimately show "\<exists>y. combinedAiScore a s = Num y \<and> 0 \<le> y \<and> y \<le> 1"
    by (simp add: combinedAiScore_def d(1))
  have "0 \<le> (1 - d) * 0.6 + s * 0.4" using d(3) assms(4) by (simp add: field_simps)
  moreover have "(1 - d) * 0.6 + s * 0.4 \<le> 1" using d(2) assms(5) by (simp add: field_simps)
  ultimately show "\<exists>y. combinedVibeScore a s = Num y \<and> 0 \<le> y \<and> y \<le> 1"
    by (simp add: combinedVibeScore_def d(1))
qed

lemma fusion_confidence_bounds:
  assumes "aiAnalysis = None \<or> (\<exists>a x. aiAnalysis = Some a \<and> a_confidence a = Num x \<and> 0 \<le> x \<and> x \<le> 1)"
    and "0 \<le> s1" and "s1 \<le> 1" and "0 \<le> s2" and "s2 \<le> 1"
  shows "\<exists>y. fst (snd (fusion s1 s2 aiAnalysis)) = Num y \<and> 0 \<le> y \<and> y \<le> 1"
proof (cases aiAnalysis)
  case None
  then show ?thesis using assms(2-5) by (simp add: fusion_def)
next
  case (Some a)
  with assms(1) obtain x where x: "a_confidence a = Num x" "0 \<le> x" "x \<le> 1" by auto
  show ?thesis
    using combined_scores_bounds(1) [OF x assms(2,3)] combined_scores_bounds(2) [OF x assms(4,5)]
    by (auto simp: fusion_def Some)
qed

lemma floor_then_round_bounds:
  assumes "0 \<le> y" and "y \<le> 1"
  shows "\<exists>c. round2 (Math_max (Num y) (Num 0.5)) = Num c \<and> 1 / 2 \<le> c \<and> c \<le> 1"
proof -
  have "1 / 2 \<le> max y 0.5" and "max y 0.5 \<le> 1" using assms by simp_all
  from round2_bounds [OF this] show ?thesis by simp
qed

lemma classifyTicket_confidence_bounds:
  assumes "analyzeTicketWithAI e t = None
           \<or> (\<exists>a. analyzeTicketWithAI e t = Some a \<and> a_confidence a \<noteq> NaN)"
  shows "\<exists>c. confidence (classifyTicket e t) = Num c \<and> 1 / 2 \<le> c \<and> c \<le> 1"
proof -
  have "analyzeTicketWithAI e t = None
        \<or> (\<exists>a x. analyzeTicketWithAI e t = Some a \<and> a_confidence a = Num x \<and> 0 \<le> x \<and> x \<le> 1)"
    using assms analysis_confidence_clamped [of e t] by auto
  from fusion_confidence_bounds [OF this calculateRuleBasedScore_bounds calculateRuleBasedScore_bounds]
  obtain y where "fst (snd (fusion (calculateRuleBasedScore t ai_code_remediation)
      (calculateRuleBasedScore t vibe_coded_troubleshooting) (analyzeTicketWithAI e t))) = Num y"
    "0 \<le> y" "y \<le> 1" by blast
  then show ?thesis
    using floor_then_round_bounds [of y] by (simp add: classifyTicket_fields)
qed

lemma analyzeTicketWithAI_no_key:
  assumes "OPENAI_API_KEY e = None \<or> OPENAI_API_KEY e = Some [] \<or> OPENAI_API_KEY e = Some ''demo-key''"
  shows "analyzeTicketWithAI e t = None"
  using assms by (auto simp: analyzeTicketWithAI_def)

lemma analyzeTicketWithAI_error:
  assumes "analysis_attempt (reply e) = Inl err"
  shows "analyzeTicketWithAI e t = None"
  using assms by (simp add: analyzeTicketWithAI_def)

lemma fallback_reasoning_length:
  assumes "analyzeTicketWithAI e t = None"
  shows "10 \<le> length (reasoning (classifyTicket e t))"
  by (simp add: classifyTicket_fields assms fusion_None)

lemma fallback_valid:
  assumes "analyzeTicketWithAI e t = None"
  shows "validateResponse (classifyTicket e t)"
proof -
  obtain c where c: "confidence (classifyTicket e t) = Num c" "1 / 2 \<le> c" "c \<le> 1"
    using classifyTicket_confidence_bounds [of e t] assms by blast
  have "list_all (\<lambda>a. 5 \<le> length a) (next_actions (classifyTicket e t))"
    "length (next_actions (classifyTicket e t)) = 6"
    by (simp_all add: classifyTicket_fields(4) generateActionChecklist_min_length
        generateActionChecklist_length)
  moreover have "model_version (metadata (classifyTicket e t)) \<noteq> []"
    by (simp add: classifyTicket_fields)
  ultimately show ?thesis
    using c fallback_reasoning_length [OF assms] by (simp add: validateResponse_def)
qed

text \<open>
  Claim C6: the adapter never hands an exception to its caller. Without a usable
  credential, when the request is rejected (network failure, timeout), when the reply has
  no content, is not JSON or is cut short, or when a required field is missing, it returns
  null; \<^verbatim>\<open>classifyTicket\<close> then takes the rule-only branch and still returns a result
  that passes the response schema, with confidence between 0.5 and 1.
\<close>

theorem adapter_failure_falls_back:
  assumes "OPENAI_API_KEY e = None \<or> OPENAI_API_KEY e = Some [] \<or> OPENAI_API_KEY e = Some ''demo-key''
           \<or> reply e = Rejected \<or> reply e = NoContent \<or> reply e = Unparsable
           \<or> reply e = ParsedNull
           \<or> (\<exists>p. reply e = Parsed p
                \<and> (\<not> truthy_text (p_recommendation p) \<or> \<not> truthy_confidence (p_confidence p)
                    \<or> \<not> truthy_text (p_reasoning p)))
           \<or> (\<exists>err. analysis_attempt (reply e) = Inl err)"
  shows "analyzeTicketWithAI e t = None
       \<and> ai_analysis_used (metadata (classifyTicket e t)) = False
       \<and> decision (classifyTicket e t)
           = (if calculateRuleBasedScore t ai_code_remediation
                   > calculateRuleBasedScore t vibe_coded_troubleshooting
              then ai_code_remediation else vibe_coded_troubleshooting)
       \<and> (\<exists>c. confidence (classifyTicket e t) = Num c \<and> 1 / 2 \<le> c \<and> c \<le> 1)
       \<and> validateResponse (classifyTicket e t)"
proof -
  from assms consider
      "OPENAI_API_KEY e = None \<or> OPENAI_API_KEY e = Some [] \<or> OPENAI_API_KEY e = Some ''demo-key''"
    | "\<exists>err. analysis_attempt (reply e) = Inl err"
    by fastforce
  then have n: "analyzeTicketWithAI e t = None"
    by cases (auto intro: analyzeTicketWithAI_no_key analyzeTicketWithAI_error)
  have "decision (classifyTicket e t)
           = (if calculateRuleBasedScore t ai_code_remediation
                   > calculateRuleBasedScore t vibe_coded_troubleshooting
              then ai_code_remediation else vibe_coded_troubleshooting)"
    by (simp add: classifyTicket_fields n fusion_None)
  moreover have "\<exists>c. confidence (classifyTicket e t) = Num c \<and> 1 / 2 \<le> c \<and> c \<le> 1"
    using classifyTicket_confidence_bounds [of e t] n by blast
  moreover have "ai_analysis_used (metadata (classifyTicket e t)) = False"
    by (simp add: classifyTicket_fields n)
  ultimately show ?thesis using n fallback_valid [OF n] by blast
qed

theorem adapter_failure_falls_back_witness:
  "reply malformed_env
      = Parsed \<lparr> p_recommendation = Some ''ai_code_remediation'', p_confidence = Falsy_other,
                 p_reasoning = Some ''API errors'' \<rparr>
   \<and> \<not> truthy_confidence Falsy_other
   \<and> analyzeTicketWithAI malformed_env technical_ticket = None
   \<and> ai_analysis_used (metadata (classifyTicket malformed_env technical_ticket)) = False
   \<and> decision (classifyTicket malformed_env technical_ticket) = ai_code_remediation
   \<and> confidence (classifyTicket malformed_env technical_ticket) = Num (71 / 100)
   \<and> validateResponse (classifyTicket malformed_env technical_ticket)"
proof -
  have r: "reply malformed_env
      = Parsed \<lparr> p_recommendation = Some ''ai_code_remediation'', p_confidence = Falsy_other,
                 p_reasoning = Some ''API errors'' \<rparr>"
    by (simp add: malformed_env_def)
  then have h: "\<exists>p. reply malformed_env = Parsed p
                \<and> (\<not> truthy_text (p_recommendation p) \<or> \<not> truthy_confidence (p_confidence p)
                    \<or> \<not> truthy_text (p_reasoning p))"
    by simp
  have d: "decision (classifyTicket malformed_env technical_ticket) = ai_code_remediation"
    by code_simp
  have c: "confidence (classifyTicket malformed_env technical_ticket) = Num (71 / 100)"
    by code_simp
  from adapter_failure_falls_back [where e = malformed_env and t = technical_ticket] h r d c
  show ?thesis by simp
qed

section \<open>End-to-end scenarios\<close>

text \<open>
  Claim C4 at a failing input: the ticket of scenario 1 is valid, the service replies with
  all three fields present but the confidence worded as \<^verbatim>\<open>"high"\<close>. The adapter lets the
  reply through with confidence \<^verbatim>\<open>NaN\<close>, and the result's confidence is \<^verbatim>\<open>NaN\<close>, outside
  the interval from 0.5 to 1; the decision falls to the operational category.
\<close>

theorem worded_confidence_gives_NaN:
  "validTicket technical_ticket
   \<and> analyzeTicketWithAI worded_confidence_env technical_ticket
       = Some \<lparr> a_recommendation = ''ai_code_remediation'', a_confidence = NaN,
                a_reasoning = ''API errors'' \<rparr>
   \<and> confidence (classifyTicket worded_confidence_env technical_ticket) = NaN
   \<and> decision (classifyTicket worded_confidence_env technical_ticket) = vibe_coded_troubleshooting
   \<and> \<not> validateResponse (classifyTicket worded_confidence_env technical_ticket)"
  by code_simp

text \<open>
  Claim C7 at scenario 3: the first action is the escalation, but the incident report,
  appended at index 7, is cut off by the truncation to six entries.
\<close>

theorem incident_report_missing:
  "generateActionChecklist ai_code_remediation critical_ticket
     = [''Escalate to senior team immediately'',
        ''Analyze error logs and stack traces'',
        ''Identify root cause in codebase'',
        ''Generate code patch or fix'',
        ''Run automated tests on fix'',
        ''Deploy to staging environment'']
   \<and> next_actions (classifyTicket no_key_env critical_ticket)
       = generateActionChecklist ai_code_remediation critical_ticket
   \<and> next_actions (classifyTicket no_key_env critical_ticket) ! 0
       = ''Escalate to senior team immediately''
   \<and> ''Prepare incident report'' \<notin> set (next_actions (classifyTicket no_key_env critical_ticket))"
  by code_simp

text \<open>
  Claim C8 at scenario 2: without an assessment the decision is the operational category,
  and the confidence is exactly 0.7 (five of twenty keywords, channel and severity both
  preferred), which is not strictly greater than 0.7.
\<close>

theorem operational_scenario_confidence:
  "analyzeTicketWithAI no_key_env operational_ticket = None
   \<and> calculateRuleBasedScore operational_ticket vibe_coded_troubleshooting = 7 / 10
   \<and> decision (classifyTicket no_key_env operational_ticket) = vibe_coded_troubleshooting
   \<and> confidence (classifyTicket no_key_env operational_ticket) = Num (7 / 10)
   \<and> \<not> js_gt (confidence (classifyTicket no_key_env operational_ticket)) (Num 0.7)"
  by code_simp

end
